theory Spec2Isabelle
  imports Main "HOL-Library.Sublist"
begin

section \<open>The billing activation script \<^verbatim>\<open>activate.py\<close>\<close>

text \<open>
  The script shells out to the \<^verbatim>\<open>gcloud\<close> tool, parses its CSV listings, reads a menu
  selection from standard input and links a project to a billing account. The model
  below is a shallow embedding of the whole script.

  \<^item> Python strings are \<^typ>\<open>string\<close> (lists of 8-bit characters, read as code points
    below 256), unbounded as Python strings are; Python integers are \<^typ>\<open>int\<close>.
  \<^item> Everything the script does to the outside is an \<open>event\<close>, appended in program order
    to one trace: a subprocess that was run, a line printed to standard output, a line
    printed to the diagnostic stream, a prompt written by \<^verbatim>\<open>input\<close>.
  \<^item> The outside is a \<open>shell\<close>: for every trace so far and every command line it gives
    the exit status and the decoded text of the two captured streams. Standard input is
    the list of lines still to be read; reading past its end is Python's \<^verbatim>\<open>EOFError\<close>.
  \<^item> A function either returns, or leaves through \<^verbatim>\<open>sys.exit\<close>, or raises an exception
    that nothing in the script catches.
  \<^item> The library functions the script calls (\<^verbatim>\<open>str.strip\<close>, \<^verbatim>\<open>int\<close>, \<^verbatim>\<open>csv.reader\<close> with
    its default dialect, the newline translation of \<^verbatim>\<open>text=True\<close>) are modelled after
    CPython 3.11. Two resource guards of the interpreter are outside the model, as
    memory is: the reader's field size limit (131072 characters in one field) and the
    limit on the number of digits \<^verbatim>\<open>int\<close> converts (4300).
\<close>

subsection \<open>Events, the outside world, results\<close>

datatype event = Run string | Print string | PrintErr string | Prompt string

record proc =
  returncode :: int
  stdout :: string
  stderr :: string

type_synonym shell = "event list \<Rightarrow> string \<Rightarrow> proc"

record io =
  trace :: "event list"
  stdin :: "string list"

datatype exn = CsvError | ValueError | IndexError | EOFError

datatype 'a result = Return 'a | SysExit int | Raise exn

definition emit :: "event \<Rightarrow> io \<Rightarrow> io" where
  "emit e s = s\<lparr>trace := trace s @ [e]\<rparr>"

definition print :: "string \<Rightarrow> io \<Rightarrow> io" where
  "print msg s = emit (Print msg) s"

definition eprint :: "string \<Rightarrow> io \<Rightarrow> io" where
  "eprint msg s = emit (PrintErr msg) s"

text \<open>Sequencing: \<^verbatim>\<open>sys.exit\<close> and an uncaught exception skip the rest.\<close>

definition and_then ::
  "'a result \<times> io \<Rightarrow> ('a \<Rightarrow> io \<Rightarrow> 'b result \<times> io) \<Rightarrow> 'b result \<times> io" where
  "and_then m f =
     (case m of
        (Return x, s) \<Rightarrow> f x s
      | (SysExit n, s) \<Rightarrow> (SysExit n, s)
      | (Raise e, s) \<Rightarrow> (Raise e, s))"

subsection \<open>Library: characters, \<^verbatim>\<open>str.strip\<close>, newline translation, \<^verbatim>\<open>str\<close> of a number\<close>

definition LF :: char where "LF = CHR 0x0A"
definition CR :: char where "CR = CHR 0x0D"
definition comma :: char where "comma = CHR 0x2C"
definition quotechar :: char where "quotechar = CHR 0x22"

text \<open>\<^verbatim>\<open>str.isspace\<close> on the code points below 256.\<close>

definition isspace :: "char \<Rightarrow> bool" where
  "isspace c = (of_char c \<in> {9, 10, 11, 12, 13, 28, 29, 30, 31, 32, 133, 160 :: nat})"

definition strip :: "string \<Rightarrow> string" where
  "strip s = rev (dropWhile isspace (rev (dropWhile isspace s)))"

text \<open>
  \<^verbatim>\<open>text=True\<close>: the captured text goes through
  \<^verbatim>\<open>data.replace("\r\n", "\n").replace("\r", "\n")\<close>.
\<close>

fun replace_crlf :: "string \<Rightarrow> string" where
  "replace_crlf (a # b # cs) =
     (if a = CR \<and> b = LF then LF # replace_crlf cs else a # replace_crlf (b # cs))"
| "replace_crlf cs = cs"

definition translate_newlines :: "string \<Rightarrow> string" where
  "translate_newlines data = map (\<lambda>c. if c = CR then LF else c) (replace_crlf data)"

definition digit_char :: "nat \<Rightarrow> char" where
  "digit_char d = char_of (48 + d)"

fun str_nat :: "nat \<Rightarrow> string" where
  "str_nat n = (if n < 10 then [digit_char n] else str_nat (n div 10) @ [digit_char (n mod 10)])"

declare str_nat.simps [simp del]

subsection \<open>Library: \<^verbatim>\<open>int\<close> of a string\<close>

text \<open>
  \<^verbatim>\<open>int(s)\<close> in base ten: white space around, an optional sign, then decimal digits in
  which single underscores may separate digits. The white space \<^verbatim>\<open>int\<close> skips is tab to
  carriage return, the space, and the two Latin-1 spaces 0x85 and 0xA0; the separators
  0x1C to 0x1F, which \<^verbatim>\<open>strip\<close> removes, are not skipped. \<open>None\<close> is \<^verbatim>\<open>ValueError\<close>.
\<close>

definition int_space :: "char \<Rightarrow> bool" where
  "int_space c = (of_char c \<in> {9, 10, 11, 12, 13, 32, 133, 160 :: nat})"

definition isdigit :: "char \<Rightarrow> bool" where
  "isdigit c = (48 \<le> (of_char c :: nat) \<and> (of_char c :: nat) \<le> 57)"

definition digit_val :: "char \<Rightarrow> int" where
  "digit_val c = int (of_char c) - 48"

text \<open>
  \<open>digits acc prev cs\<close>: the value of the digit string \<open>cs\<close> continuing the value \<open>acc\<close>;
  \<open>prev\<close> says that the character before was a digit (an underscore needs a digit on both
  sides, and the string must end in a digit).
\<close>

fun digits :: "int \<Rightarrow> bool \<Rightarrow> string \<Rightarrow> int option" where
  "digits acc prev [] = (if prev then Some acc else None)"
| "digits acc prev (c # cs) =
     (if isdigit c then digits (10 * acc + digit_val c) True cs
      else if c = CHR 0x5F \<and> prev then
        (case cs of [] \<Rightarrow> None | d # _ \<Rightarrow> if isdigit d then digits acc False cs else None)
      else None)"

definition int_of_str :: "string \<Rightarrow> int option" where
  "int_of_str s =
     (case rev (dropWhile int_space (rev (dropWhile int_space s))) of
        [] \<Rightarrow> None
      | c # cs \<Rightarrow>
          if c = CHR 0x2B then digits 0 False cs
          else if c = CHR 0x2D then map_option uminus (digits 0 False cs)
          else digits 0 False (c # cs))"

subsection \<open>Library: \<^verbatim>\<open>csv.reader(io.StringIO(output))\<close>\<close>

text \<open>
  Iterating a \<^verbatim>\<open>StringIO\<close> gives the lines of the text, each with its line feed; only the
  line feed ends a line.
\<close>

fun readlines :: "string \<Rightarrow> string list" where
  "readlines [] = []"
| "readlines (c # cs) =
     (if c = LF then [c] # readlines cs
      else (case readlines cs of [] \<Rightarrow> [[c]] | l # ls \<Rightarrow> (c # l) # ls))"

text \<open>
  The reader's state machine, for the default dialect: delimiter comma, quote character
  \<^verbatim>\<open>"\<close> doubled inside a quoted field, no escape character, not strict. The two escape
  states of the C source cannot be entered without an escape character and are left out.
\<close>

datatype pstate =
  START_RECORD | START_FIELD | IN_FIELD | IN_QUOTED_FIELD | QUOTE_IN_QUOTED_FIELD | EAT_CRNL

record reader =
  rstate :: pstate
  flds :: "string list"
  fld :: string

definition parse_reset :: reader where
  "parse_reset = \<lparr>rstate = START_RECORD, flds = [], fld = []\<rparr>"

definition parse_save_field :: "reader \<Rightarrow> reader" where
  "parse_save_field r = r\<lparr>flds := flds r @ [fld r], fld := []\<rparr>"

definition parse_add_char :: "reader \<Rightarrow> char \<Rightarrow> reader" where
  "parse_add_char r c = r\<lparr>fld := fld r @ [c]\<rparr>"

text \<open>The character is \<open>Some c\<close>, or \<open>None\<close> for the end of a line (\<^verbatim>\<open>EOL\<close> in the C source).\<close>

definition is_newline :: "char option \<Rightarrow> bool" where
  "is_newline c = (c = Some LF \<or> c = Some CR)"

definition after_line_end :: "char option \<Rightarrow> pstate" where
  "after_line_end c = (if c = None then START_RECORD else EAT_CRNL)"

definition start_field :: "reader \<Rightarrow> char option \<Rightarrow> exn + reader" where
  "start_field r c =
     (if is_newline c \<or> c = None then
        Inr ((parse_save_field r)\<lparr>rstate := after_line_end c\<rparr>)
      else if c = Some quotechar then Inr (r\<lparr>rstate := IN_QUOTED_FIELD\<rparr>)
      else if c = Some comma then Inr (parse_save_field r)
      else Inr ((parse_add_char r (the c))\<lparr>rstate := IN_FIELD\<rparr>))"

definition parse_process_char :: "reader \<Rightarrow> char option \<Rightarrow> exn + reader" where
  "parse_process_char r c =
     (case rstate r of
        START_RECORD \<Rightarrow>
          if c = None then Inr r
          else if is_newline c then Inr (r\<lparr>rstate := EAT_CRNL\<rparr>)
          else start_field (r\<lparr>rstate := START_FIELD\<rparr>) c
      | START_FIELD \<Rightarrow> start_field r c
      | IN_FIELD \<Rightarrow>
          if is_newline c \<or> c = None then
            Inr ((parse_save_field r)\<lparr>rstate := after_line_end c\<rparr>)
          else if c = Some comma then Inr ((parse_save_field r)\<lparr>rstate := START_FIELD\<rparr>)
          else Inr (parse_add_char r (the c))
      | IN_QUOTED_FIELD \<Rightarrow>
          if c = None then Inr r
          else if c = Some quotechar then Inr (r\<lparr>rstate := QUOTE_IN_QUOTED_FIELD\<rparr>)
          else Inr (parse_add_char r (the c))
      | QUOTE_IN_QUOTED_FIELD \<Rightarrow>
          if c = Some quotechar then
            Inr ((parse_add_char r quotechar)\<lparr>rstate := IN_QUOTED_FIELD\<rparr>)
          else if c = Some comma then Inr ((parse_save_field r)\<lparr>rstate := START_FIELD\<rparr>)
          else if is_newline c \<or> c = None then
            Inr ((parse_save_field r)\<lparr>rstate := after_line_end c\<rparr>)
          else Inr ((parse_add_char r (the c))\<lparr>rstate := IN_FIELD\<rparr>)
      | EAT_CRNL \<Rightarrow>
          if is_newline c then Inr r
          else if c = None then Inr (r\<lparr>rstate := START_RECORD\<rparr>)
          else Inl CsvError)"

fun parse_line :: "reader \<Rightarrow> string \<Rightarrow> exn + reader" where
  "parse_line r [] = parse_process_char r None"
| "parse_line r (c # cs) =
     (case parse_process_char r (Some c) of
        Inl e \<Rightarrow> Inl e
      | Inr r' \<Rightarrow> parse_line r' cs)"

text \<open>
  Iterating the reader. Each \<^verbatim>\<open>Reader_iternext\<close> resets the parser and consumes lines
  until the state is \<^verbatim>\<open>START_RECORD\<close> again, then yields the fields; at the end of the
  input it yields an unfinished record if there is one (a field begun, or an open quoted
  field) and stops otherwise. \<open>reader_rows\<close> is the whole iteration: the rows yielded in
  order, and the error that ends the iteration, if one does. The reader has no effect
  but on itself, so a loop that leaves early sees a prefix of the rows, and meets the
  error only if it reaches the end of them.
\<close>

fun reader_rows :: "reader \<Rightarrow> string list \<Rightarrow> string list list \<times> exn option" where
  "reader_rows r [] =
     (if fld r \<noteq> [] \<or> rstate r = IN_QUOTED_FIELD
      then ([flds (parse_save_field r)], None)
      else ([], None))"
| "reader_rows r (l # ls) =
     (case parse_line r l of
        Inl e \<Rightarrow> ([], Some e)
      | Inr r' \<Rightarrow>
          if rstate r' \<noteq> START_RECORD then reader_rows r' ls
          else (case reader_rows parse_reset ls of (rows, e) \<Rightarrow> (flds r' # rows, e)))"

definition csv_reader :: "string \<Rightarrow> string list list \<times> exn option" where
  "csv_reader output = reader_rows parse_reset (readlines output)"

subsection \<open>\<^verbatim>\<open>run_gcloud_command\<close>\<close>

text \<open>
  \<^verbatim>\<open>subprocess.run(command, capture_output=True, text=True, check=check, shell=True)\<close>:
  with \<^verbatim>\<open>check\<close> a non-zero exit status raises \<^verbatim>\<open>CalledProcessError\<close>, which the function
  catches, reports and turns into \<^verbatim>\<open>sys.exit(1)\<close>.
\<close>

definition run_gcloud_command :: "shell \<Rightarrow> string \<Rightarrow> bool \<Rightarrow> io \<Rightarrow> string result \<times> io" where
  "run_gcloud_command sh command check s =
     (let process = sh (trace s) command;
          s1 = emit (Run command) s
      in if check \<and> returncode process \<noteq> 0 then
           (SysExit 1,
            eprint (''Stderr: '' @ translate_newlines (stderr process))
              (eprint (''Error running command: '' @ command) s1))
         else (Return (strip (translate_newlines (stdout process))), s1))"

subsection \<open>\<^verbatim>\<open>find_active_billing_account\<close>\<close>

definition billing_list_command :: string where
  "billing_list_command =
     ''gcloud beta billing accounts list --format='' @
     CHR 0x27 # ''csv(displayName,name,open)'' @ [CHR 0x27]"

text \<open>The \<^verbatim>\<open>for row in csv_reader\<close> loop, on the rows not yet read and the reader's error.\<close>

fun find_row ::
  "string list list \<Rightarrow> exn option \<Rightarrow> (string option \<times> string option) result" where
  "find_row [] e = (case e of None \<Rightarrow> Return (None, None) | Some x \<Rightarrow> Raise x)"
| "find_row (row # rows) e =
     (if length row = 3 \<and> row ! 2 = ''True'' \<and> sublist ''Trial Billing Account'' (row ! 0)
      then Return (Some (row ! 0), Some (row ! 1))
      else find_row rows e)"

definition find_active_billing_account ::
  "shell \<Rightarrow> io \<Rightarrow> (string option \<times> string option) result \<times> io" where
  "find_active_billing_account sh s =
     and_then (run_gcloud_command sh billing_list_command True s) (\<lambda>output s1.
       if output = [] then (Return (None, None), s1)
       else
         (case csv_reader output of
            ([], None) \<Rightarrow> (Return (None, None), s1)
          | ([], Some x) \<Rightarrow> (Raise x, s1)
          | (header # rows, e) \<Rightarrow> (find_row rows e, s1)))"

subsection \<open>\<^verbatim>\<open>get_current_project\<close>\<close>

definition get_project_command :: string where
  "get_project_command = ''gcloud config get-value project''"

definition get_current_project :: "shell \<Rightarrow> io \<Rightarrow> string result \<times> io" where
  "get_current_project sh s = run_gcloud_command sh get_project_command False s"

subsection \<open>\<^verbatim>\<open>select_project\<close>\<close>

definition projects_list_command :: string where
  "projects_list_command =
     ''gcloud projects list --format='' @ CHR 0x27 # ''csv(projectId,name)'' @ [CHR 0x27]"

text \<open>
  The menu: \<^verbatim>\<open>for i, (project_id, name) in enumerate(projects)\<close>. Unpacking a row that
  does not have exactly two fields raises \<^verbatim>\<open>ValueError\<close>, outside any handler.
\<close>

fun print_menu :: "string list list \<Rightarrow> nat \<Rightarrow> io \<Rightarrow> unit result \<times> io" where
  "print_menu [] i s = (Return (), s)"
| "print_menu (row # rows) i s =
     (case row of
        [project_id, name] \<Rightarrow>
          print_menu rows (i + 1)
            (print (''  '' @ str_nat (i + 1) @ '': '' @ project_id @ '' ('' @ name @ '')'') s)
      | _ \<Rightarrow> (Raise ValueError, s))"

text \<open>\<^verbatim>\<open>input(prompt)\<close> writes the prompt and reads one line, without its line feed.\<close>

definition input :: "string \<Rightarrow> io \<Rightarrow> string result \<times> io" where
  "input p s =
     (case stdin s of
        [] \<Rightarrow> (Raise EOFError, emit (Prompt p) s)
      | l # ls \<Rightarrow> (Return l, (emit (Prompt p) s)\<lparr>stdin := ls\<rparr>))"

definition selection_prompt :: "string list list \<Rightarrow> string" where
  "selection_prompt projects = ''Enter a number (1-'' @ str_nat (length projects) @ ''): ''"

text \<open>
  The \<^verbatim>\<open>while True\<close> loop. Only the \<^verbatim>\<open>ValueError\<close> of \<^verbatim>\<open>int\<close> is caught; the end of the
  input and an index into an empty row are not.
\<close>

function select_loop :: "string list list \<Rightarrow> io \<Rightarrow> string option result \<times> io" where
  "select_loop projects s =
     (case input (selection_prompt projects) s of
        (Return selection, s1) \<Rightarrow>
          (case int_of_str selection of
             None \<Rightarrow> select_loop projects (eprint ''Invalid input. Please enter a number.'' s1)
           | Some v \<Rightarrow>
               (let selection_index = v - 1
                in if 0 \<le> selection_index \<and> selection_index < int (length projects) then
                     (case projects ! nat selection_index of
                        [] \<Rightarrow> (Raise IndexError, s1)
                      | project_id # _ \<Rightarrow> (Return (Some project_id), s1))
                   else select_loop projects (eprint ''Invalid selection. Please try again.'' s1)))
      | (SysExit n, s1) \<Rightarrow> (SysExit n, s1)
      | (Raise e, s1) \<Rightarrow> (Raise e, s1))"
  by pat_completeness auto
termination
  by (relation "measure (\<lambda>(projects, s). length (stdin s))")
     (auto simp: input_def eprint_def emit_def split: list.splits)

declare select_loop.simps [simp del]

definition select_project :: "shell \<Rightarrow> io \<Rightarrow> string option result \<times> io" where
  "select_project sh s =
     and_then
       (run_gcloud_command sh projects_list_command True (print ''Fetching available projects...'' s))
       (\<lambda>output s1.
          if output = [] then (Return None, eprint ''No projects found.'' s1)
          else
            (case csv_reader output of
               ([], None) \<Rightarrow> (Return None, eprint ''No projects found.'' s1)
             | ([], Some x) \<Rightarrow> (Raise x, s1)
             | (header # projects, Some x) \<Rightarrow> (Raise x, s1)
             | (header # projects, None) \<Rightarrow>
                 if projects = [] then (Return None, eprint ''No projects found.'' s1)
                 else
                   and_then (print_menu projects 0 (print ''Please select a project:'' s1))
                     (\<lambda>_ s2. select_loop projects s2)))"

subsection \<open>\<^verbatim>\<open>link_billing_account\<close> and \<^verbatim>\<open>main\<close>\<close>

definition link_command :: "string \<Rightarrow> string \<Rightarrow> string" where
  "link_command project_id billing_account_id =
     ''gcloud beta billing projects link '' @ project_id @
     '' --billing-account '' @ billing_account_id"

definition link_billing_account :: "shell \<Rightarrow> string \<Rightarrow> string \<Rightarrow> io \<Rightarrow> unit result \<times> io" where
  "link_billing_account sh project_id billing_account_id s =
     and_then (run_gcloud_command sh (link_command project_id billing_account_id) True s)
       (\<lambda>_ s1. (Return (), s1))"

definition set_project_command :: "string \<Rightarrow> string" where
  "set_project_command project_id = ''gcloud config set project '' @ project_id"

text \<open>How an f-string shows a value that may be \<^verbatim>\<open>None\<close>.\<close>

definition fmt :: "string option \<Rightarrow> string" where
  "fmt v = (case v of None \<Rightarrow> ''None'' | Some x \<Rightarrow> x)"

text \<open>
  The part of \<^verbatim>\<open>main\<close> under \<^verbatim>\<open>if not project_id\<close>: select a project, make it the current
  one, and ask again which project is current.
\<close>

definition resolve_project :: "shell \<Rightarrow> io \<Rightarrow> string result \<times> io" where
  "resolve_project sh s =
     and_then (select_project sh (print ''No active gcloud project found. Let's select one.'' s))
       (\<lambda>selected s1.
          case selected of
            None \<Rightarrow> (SysExit 1, eprint ''No project selected. Exiting.'' s1)
          | Some project_id \<Rightarrow>
              if project_id = [] then (SysExit 1, eprint ''No project selected. Exiting.'' s1)
              else
                and_then
                  (run_gcloud_command sh (set_project_command project_id) True
                     (print (''Setting project '' @ CHR 0x27 # project_id @ CHR 0x27 # '' as current...'') s1))
                  (\<lambda>_ s2. get_current_project sh s2))"

text \<open>
  The end of \<^verbatim>\<open>main\<close>, from the second \<^verbatim>\<open>if not project_id\<close> on: the project is known,
  link it.
\<close>

definition link_project ::
  "shell \<Rightarrow> string option \<Rightarrow> string \<Rightarrow> string \<Rightarrow> io \<Rightarrow> unit result \<times> io" where
  "link_project sh display_name bid project_id s =
     (if project_id = [] then (SysExit 1, eprint ''Failed to set project. Exiting.'' s)
      else
        and_then
          (link_billing_account sh project_id bid
             (print (''Linking project '' @ project_id @ '' to billing account '' @
                     fmt display_name @ '' ('' @ bid @ '')...'')
                (print (''Using project: '' @ project_id) s)))
          (\<lambda>_ s1. (Return (), print ''Successfully linked project.'' s1)))"

text \<open>
  The state in which \<^verbatim>\<open>main\<close> asks for the current project: the account found has been
  announced.
\<close>

definition announce_found :: "string option \<Rightarrow> string \<Rightarrow> io \<Rightarrow> io" where
  "announce_found display_name bid s =
     print ''Finding current project...''
       (print (''Found billing account: '' @ fmt display_name @ '' ('' @ bid @ '')'') s)"

definition main :: "shell \<Rightarrow> io \<Rightarrow> unit result \<times> io" where
  "main sh s =
     and_then (find_active_billing_account sh (print ''Finding an active billing account...'' s))
       (\<lambda>(display_name, billing_id) s1.
          case billing_id of
            None \<Rightarrow>
              (SysExit 1,
               eprint ''Error: No active billing account with 'Trial Billing Account' in the name found.'' s1)
          | Some bid \<Rightarrow>
              if bid = [] then
                (SysExit 1,
                 eprint ''Error: No active billing account with 'Trial Billing Account' in the name found.'' s1)
              else
                and_then (get_current_project sh (announce_found display_name bid s1))
                  (\<lambda>current s2.
                     and_then (if current = [] then resolve_project sh s2 else (Return current, s2))
                       (link_project sh display_name bid)))"

text \<open>
  The process: \<^verbatim>\<open>main()\<close> under \<^verbatim>\<open>if __name__ == "__main__"\<close>, started with an empty trace.
  The exit status is 0 when \<^verbatim>\<open>main\<close> returns, the argument of \<^verbatim>\<open>sys.exit\<close>, and 1 for an
  uncaught exception.
\<close>

definition exit_status :: "'a result \<Rightarrow> int" where
  "exit_status r = (case r of Return _ \<Rightarrow> 0 | SysExit n \<Rightarrow> n | Raise _ \<Rightarrow> 1)"

definition script :: "shell \<Rightarrow> string list \<Rightarrow> int \<times> io" where
  "script sh lines =
     (case main sh \<lparr>trace = [], stdin = lines\<rparr> of (r, s) \<Rightarrow> (exit_status r, s))"

section \<open>Properties\<close>

subsection \<open>Definitions used to state the properties\<close>


text \<open>A shell in which every command succeeds and prints the same text.\<close>

definition listing_shell :: "string \<Rightarrow> shell" where
  "listing_shell text = (\<lambda>h c. \<lparr>returncode = 0, stdout = text, stderr = []\<rparr>)"


text \<open>The three billing-account listings of the specification's test cases.\<close>

definition listing_open :: string where
  "listing_open = ''displayName,name,open'' @ [LF] @
     ''My Trial Billing Account,billingAccounts/ABC123,True'' @ [LF]"

definition listing_closed :: string where
  "listing_closed = ''displayName,name,open'' @ [LF] @
     ''My Trial Billing Account,billingAccounts/ABC123,False'' @ [LF]"

definition listing_header_only :: string where
  "listing_header_only = ''displayName,name,open'' @ [LF]"











subsection \<open>The command runner\<close>



subsection \<open>The billing account finder\<close>

lemma find_active_billing_account_ok:
  assumes "returncode (sh (trace s) billing_list_command) = 0"
  shows "find_active_billing_account sh s =
    (let output = strip (translate_newlines (stdout (sh (trace s) billing_list_command)));
         s1 = emit (Run billing_list_command) s
     in if output = [] then (Return (None, None), s1)
        else (case csv_reader output of
            ([], None) \<Rightarrow> (Return (None, None), s1)
          | ([], Some x) \<Rightarrow> (Raise x, s1)
          | (header # rows, e) \<Rightarrow> (find_row rows e, s1)))"
  using assms
  by (simp add: find_active_billing_account_def run_gcloud_command_def and_then_def Let_def)

lemma rows_listing_open:
  "csv_reader (strip (translate_newlines listing_open)) =
     ([[''displayName'', ''name'', ''open''],
       [''My Trial Billing Account'', ''billingAccounts/ABC123'', ''True'']], None)"
  by code_simp

lemma rows_listing_closed:
  "csv_reader (strip (translate_newlines listing_closed)) =
     ([[''displayName'', ''name'', ''open''],
       [''My Trial Billing Account'', ''billingAccounts/ABC123'', ''False'']], None)"
  by code_simp

lemma rows_listing_header_only:
  "csv_reader (strip (translate_newlines listing_header_only)) =
     ([[''displayName'', ''name'', ''open'']], None)"
  by code_simp

lemma nonempty_listings:
  "strip (translate_newlines listing_open) \<noteq> []"
  "strip (translate_newlines listing_closed) \<noteq> []"
  "strip (translate_newlines listing_header_only) \<noteq> []"
  by code_simp+

lemma marker_in_name: "sublist ''Trial Billing Account'' ''My Trial Billing Account''"
  by code_simp

text \<open>
  C7. The finder on the specification's test cases: a header and the row
  (My Trial Billing Account, billingAccounts/ABC123, True) give that display name and
  identifier; the same row with open state False gives (absent, absent); a header alone
  gives (absent, absent), and no error.
\<close>

theorem finder_test_cases:
  "fst (find_active_billing_account (listing_shell listing_open) s) =
     Return (Some ''My Trial Billing Account'', Some ''billingAccounts/ABC123'')
   \<and> fst (find_active_billing_account (listing_shell listing_closed) s) = Return (None, None)
   \<and> fst (find_active_billing_account (listing_shell listing_header_only) s) =
     Return (None, None)"
  by (simp add: find_active_billing_account_ok listing_shell_def Let_def
        rows_listing_open rows_listing_closed rows_listing_header_only nonempty_listings
        marker_in_name)

subsection \<open>The reader never fails on what the runner returns\<close>

text \<open>
  The runner's output has been through the newline translation, so it holds no carriage
  return; on such a text the reader's only error (a character after a line end inside a
  line) cannot happen.
\<close>

lemma replace_crlf_set: "set (replace_crlf cs) \<subseteq> set cs"
  by (induction cs rule: replace_crlf.induct) auto














subsection \<open>The finder returns the first open trial account\<close>













subsection \<open>The selection loop\<close>











end
